theory Spec2Isabelle
  imports Complex_Main
begin

section \<open>Python floats\<close>

text \<open>
  Every quantity of the formula is a Python \<^verbatim>\<open>float\<close> (the value of
  \<^verbatim>\<open>st.number_input\<close> with float bounds), that is an IEEE 754 binary64 number.
  \<open>Finite m e\<close> is the finite number \<open>m * 2 ^ e\<close>, kept in the normal form where
  \<open>m\<close> is odd; \<open>Finite 0 0\<close> is \<open>0.0\<close> and \<open>NegZero\<close> is \<open>-0.0\<close>.
  So \<open>Finite 1 1\<close> is \<open>2.0\<close>, \<open>Finite 3 (- 1)\<close> is \<open>1.5\<close> and
  \<open>Finite 7 (- 1)\<close> is \<open>3.5\<close>.
\<close>

datatype pyfloat = Finite int int | NegZero | PosInf | NegInf | NaN

text \<open>The rational number that a finite float stands for; \<open>None\<close> for the infinities
  and NaN.\<close>

fun float_value :: "pyfloat \<Rightarrow> rat option" where
  "float_value (Finite m e) =
     Some (if 0 \<le> e then of_int m * 2 ^ nat e else of_int m / 2 ^ nat (- e))"
| "float_value NegZero = Some 0"
| "float_value _ = None"


text \<open>\<open>floor_log b n\<close> is the integer part of the base-\<open>b\<close> logarithm of \<open>n \<ge> 1\<close>;
  \<open>ilog b p q\<close> is the integer part of the logarithm of the fraction \<open>p / q\<close>.\<close>

fun floor_log :: "nat \<Rightarrow> nat \<Rightarrow> nat" where
  "floor_log b n = (if b < 2 \<or> n < b then 0 else Suc (floor_log b (n div b)))"

declare floor_log.simps [simp del]

definition ilog :: "nat \<Rightarrow> nat \<Rightarrow> nat \<Rightarrow> int" where
  "ilog b p q = (let d = int (floor_log b p) - int (floor_log b q)
     in if (if 0 \<le> d then q * b ^ nat d \<le> p else q \<le> p * b ^ nat (- d)) then d else d - 1)"

fun strip_zeros :: "nat \<Rightarrow> int \<Rightarrow> nat \<times> int" where
  "strip_zeros m e = (if m = 0 then (0, 0) else if even m then strip_zeros (m div 2) (e + 1) else (m, e))"

declare strip_zeros.simps [simp del]

text \<open>\<open>rhe_div n d\<close> is \<open>n / d\<close> rounded to the nearest integer, ties to even.\<close>

definition rhe_div :: "nat \<Rightarrow> nat \<Rightarrow> nat" where
  "rhe_div n d = (let k = n div d; r = n mod d
     in if 2 * r < d then k else if d < 2 * r then k + 1 else if even k then k else k + 1)"

text \<open>
  Rounding of the positive fraction \<open>p / q\<close> to binary64, round-to-nearest-even: a
  significand of 53 bits, the least exponent \<open>- 1074\<close> (subnormal numbers), and
  overflow (\<open>None\<close>) from \<open>2 ^ 1024\<close> on.
\<close>

definition round_ratio :: "nat \<Rightarrow> nat \<Rightarrow> (nat \<times> int) option" where
  "round_ratio p q = (if p = 0 then Some (0, 0) else
     (let e0 = ilog 2 p q in
      if 1024 \<le> e0 then None
      else (let x = max (e0 - 52) (- 1074);
                m = rhe_div (p * 2 ^ nat (- x)) (q * 2 ^ nat x)
            in if m = 2 ^ 53 \<and> x = 971 then None else Some (strip_zeros m x))))"

definition make_float :: "bool \<Rightarrow> (nat \<times> int) option \<Rightarrow> pyfloat" where
  "make_float neg r = (case r of
       None \<Rightarrow> (if neg then NegInf else PosInf)
     | Some (m, e) \<Rightarrow> (if m = 0 then (if neg then NegZero else Finite 0 0)
                         else Finite (if neg then - int m else int m) e))"

text \<open>The sum of two finite floats: the exact sum, rounded once. An exact sum of zero
  is \<open>0.0\<close>.\<close>

definition finite_sum :: "int \<Rightarrow> int \<Rightarrow> int \<Rightarrow> int \<Rightarrow> pyfloat" where
  "finite_sum a ea b eb = (let e = min ea eb; s = a * 2 ^ nat (ea - e) + b * 2 ^ nat (eb - e)
     in if s = 0 then Finite 0 0
        else make_float (s < 0) (round_ratio (nat \<bar>s\<bar> * 2 ^ nat e) (2 ^ nat (- e))))"

text \<open>Python's \<^verbatim>\<open>x + y\<close> on floats. It never raises: an overflow gives an infinity.\<close>

fun fadd :: "pyfloat \<Rightarrow> pyfloat \<Rightarrow> pyfloat" where
  "fadd NaN _ = NaN"
| "fadd _ NaN = NaN"
| "fadd PosInf NegInf = NaN"
| "fadd NegInf PosInf = NaN"
| "fadd PosInf _ = PosInf"
| "fadd _ PosInf = PosInf"
| "fadd NegInf _ = NegInf"
| "fadd _ NegInf = NegInf"
| "fadd NegZero y = y"
| "fadd x NegZero = x"
| "fadd (Finite a ea) (Finite b eb) = finite_sum a ea b eb"

text \<open>The conversion of a Python \<^verbatim>\<open>int\<close> that takes part in float arithmetic. The
  only \<^verbatim>\<open>int\<close> of the program is the literal \<^verbatim>\<open>0\<close> that starts the total, so the
  \<^verbatim>\<open>OverflowError\<close> of Python for an \<^verbatim>\<open>int\<close> beyond the range of floats, where this
  definition gives an infinity, cannot occur.\<close>

definition float_of_int :: "int \<Rightarrow> pyfloat" where
  "float_of_int i = make_float (i < 0) (round_ratio (nat \<bar>i\<bar>) 1)"

subsection \<open>Formatting\<close>

text \<open>
  A Python \<^verbatim>\<open>str\<close> is modelled by its UTF-8 bytes, the encoding of the downloaded
  file; concatenation and equality of texts are the same on both. The letters outside
  ASCII in the program's literals are written byte by byte.
\<close>

definition digit_char :: "nat \<Rightarrow> char" where
  "digit_char d = ''0123456789'' ! d"

fun digits10 :: "nat \<Rightarrow> string" where
  "digits10 n = (if n < 10 then [digit_char n] else digits10 (n div 10) @ [digit_char (n mod 10)])"

declare digits10.simps [simp del]

definition magnitude :: "int \<Rightarrow> int \<Rightarrow> nat \<times> nat" where
  "magnitude m e = (nat \<bar>m\<bar> * 2 ^ nat e, 2 ^ nat (- e))"

text \<open>The format \<^verbatim>\<open>:.2f\<close>: the exact value rounded to two decimals, ties to even.\<close>

definition format_2f :: "pyfloat \<Rightarrow> string" where
  "format_2f x = (case x of
       NaN \<Rightarrow> ''nan'' | PosInf \<Rightarrow> ''inf'' | NegInf \<Rightarrow> ''-inf'' | NegZero \<Rightarrow> ''-0.00''
     | Finite m e \<Rightarrow> (case magnitude m e of (p, q) \<Rightarrow>
         (let n = rhe_div (100 * p) q
          in (if m < 0 then ''-'' else []) @ digits10 (n div 100) @ ''.'' @
             [digit_char (n mod 100 div 10), digit_char (n mod 10)])))"

text \<open>
  \<^verbatim>\<open>str(x)\<close>, which an f-string field without a format applies: the shortest decimal
  digit string that reads back as the same float, the nearest to the value among the
  shortest. \<open>try_digits\<close> looks at the two decimals with last digit at \<open>10 ^ t\<close> that
  enclose the value; \<open>shortest_digits\<close> tries 1 to 17 digits.
\<close>

definition try_digits :: "nat \<Rightarrow> nat \<Rightarrow> nat \<times> int \<Rightarrow> int \<Rightarrow> (nat \<times> int) option" where
  "try_digits p q target t =
     (let N = p * 10 ^ nat (- t); D = q * 10 ^ nat t; lo = N div D; r = N mod D; hi = lo + 1;
          lo_ok = (0 < lo \<and> round_ratio (lo * 10 ^ nat t) (10 ^ nat (- t)) = Some target);
          hi_ok = (round_ratio (hi * 10 ^ nat t) (10 ^ nat (- t)) = Some target)
      in if lo_ok \<and> hi_ok then
           Some (if 2 * r < D then lo else if D < 2 * r then hi else if even lo then lo else hi, t)
         else if lo_ok then Some (lo, t)
         else if hi_ok then Some (hi, t)
         else None)"

function shortest_digits :: "nat \<Rightarrow> nat \<Rightarrow> nat \<times> int \<Rightarrow> int \<Rightarrow> nat \<Rightarrow> nat \<times> int" where
  "shortest_digits p q target k n =
     (if 17 \<le> n then (rhe_div (p * 10 ^ nat (16 - k)) (q * 10 ^ nat (k - 16)), k - 16)
      else (case try_digits p q target (k + 1 - int n) of
              Some c \<Rightarrow> c
            | None \<Rightarrow> shortest_digits p q target k (Suc n)))"
  by pat_completeness auto
termination
  by (relation "measure (\<lambda>(p, q, target, k, n). 17 - n)") auto

declare shortest_digits.simps [simp del]

definition strip_trailing_zeros :: "string \<Rightarrow> string" where
  "strip_trailing_zeros s = rev (dropWhile (\<lambda>c. c = CHR ''0'') (rev s))"

text \<open>The layout of the digits: plain notation when the decimal point falls between
  \<open>- 4\<close> and \<open>16\<close>, with \<^verbatim>\<open>.0\<close> added to a whole number; the exponent notation
  otherwise.\<close>

definition repr_layout :: "string \<Rightarrow> int \<Rightarrow> string" where
  "repr_layout ds decpt =
     (if - 4 < decpt \<and> decpt \<le> 16 then
        (if decpt \<le> 0 then ''0.'' @ replicate (nat (- decpt)) CHR ''0'' @ ds
         else if int (length ds) \<le> decpt then ds @ replicate (nat decpt - length ds) CHR ''0'' @ ''.0''
         else take (nat decpt) ds @ ''.'' @ drop (nat decpt) ds)
      else
        (let x = decpt - 1; xs = digits10 (nat \<bar>x\<bar>)
         in [hd ds] @ (if 1 < length ds then ''.'' @ tl ds else []) @ ''e'' @
            (if x < 0 then ''-'' else ''+'') @ (if length xs < 2 then ''0'' @ xs else xs)))"

definition float_repr :: "pyfloat \<Rightarrow> string" where
  "float_repr x = (case x of
       NaN \<Rightarrow> ''nan'' | PosInf \<Rightarrow> ''inf'' | NegInf \<Rightarrow> ''-inf'' | NegZero \<Rightarrow> ''-0.0''
     | Finite m e \<Rightarrow>
         (if m = 0 then ''0.0''
          else (case magnitude m e of (p, q) \<Rightarrow>
            (case shortest_digits p q (nat \<bar>m\<bar>, e) (ilog 10 p q) 1 of (c, t) \<Rightarrow>
               (if m < 0 then ''-'' else []) @
               repr_layout (strip_trailing_zeros (digits10 c)) (int (length (digits10 c)) + t)))))"

section \<open>The formula designer\<close>

text \<open>
  \<^verbatim>\<open>st.session_state.formula\<close> is a \<^verbatim>\<open>dict\<close> from ingredient name to quantity.
  A Python \<^verbatim>\<open>dict\<close> iterates in insertion order, and the export walks it in that
  order, so the formula is an association list in insertion order.
\<close>

type_synonym formula = "(string \<times> pyfloat) list"

text \<open>\<^verbatim>\<open>formula[name] += cantidad\<close> on a key that is present: the entry keeps its place.\<close>

fun add_quantity :: "string \<Rightarrow> pyfloat \<Rightarrow> formula \<Rightarrow> formula" where
  "add_quantity name cantidad [] = []"
| "add_quantity name cantidad ((k, v) # rest) =
     (if k = name then (k, fadd v cantidad) # rest
      else (k, v) # add_quantity name cantidad rest)"

text \<open>
  The handler of the form \<^verbatim>\<open>add_ingredient_form\<close>, run when the submit button is
  pressed. It returns the new formula and the text given to \<^verbatim>\<open>st.success\<close>. The
  handler has no test of the quantity; the lower bound \<^verbatim>\<open>min_value=0.1\<close> belongs to the
  \<^verbatim>\<open>st.number_input\<close> widget that feeds it.
\<close>

definition add_ingredient_form :: "string \<Rightarrow> pyfloat \<Rightarrow> formula \<Rightarrow> formula \<times> string" where
  "add_ingredient_form ingrediente_sel cantidad formula =
     ((if ingrediente_sel \<in> set (map fst formula)
       then add_quantity ingrediente_sel cantidad formula
       else formula @ [(ingrediente_sel, cantidad)]),
      ''A'' @ [CHR 0xC3, CHR 0xB1] @ ''adido '' @ float_repr cantidad @ '' de '' @ ingrediente_sel)"

text \<open>The handler of the button that clears the formula:
  \<^verbatim>\<open>st.session_state.formula = {}\<close>.\<close>

definition limpiar_formula :: "formula \<Rightarrow> formula" where
  "limpiar_formula formula = []"

subsection \<open>The panel of the current formula\<close>

text \<open>\<^verbatim>\<open>total_partes\<close> starts as the \<^verbatim>\<open>int\<close> 0 and becomes a float with the first
  quantity added.\<close>

datatype number = IntN int | FloatN pyfloat

fun num_add :: "number \<Rightarrow> pyfloat \<Rightarrow> number" where
  "num_add (IntN i) x = FloatN (fadd (float_of_int i) x)"
| "num_add (FloatN t) x = FloatN (fadd t x)"

fun num_format_2f :: "number \<Rightarrow> string" where
  "num_format_2f (IntN i) = format_2f (float_of_int i)"
| "num_format_2f (FloatN t) = format_2f t"

definition newline :: string where
  "newline = [CHR 0x0A]"

definition separator :: string where
  "separator = replicate 20 CHR ''='' @ newline"

definition header :: string where
  "header = ''F'' @ [CHR 0xC3, CHR 0x93] @ ''RMULA DE PERFUME'' @ newline"

text \<open>
  The loop over \<^verbatim>\<open>formula.items()\<close>, with its three accumulators: the rows of the
  table, the export text and the total.
\<close>

fun formula_loop ::
  "formula \<Rightarrow> (string \<times> pyfloat) list \<times> string \<times> number \<Rightarrow> (string \<times> pyfloat) list \<times> string \<times> number"
where
  "formula_loop [] acc = acc"
| "formula_loop ((nombre, cantidad) # items) (formula_df_data, formula_str, total_partes) =
     formula_loop items
       (formula_df_data @ [(nombre, cantidad)],
        formula_str @ nombre @ '': '' @ float_repr cantidad @ newline,
        num_add total_partes cantidad)"

text \<open>
  What the right-hand column shows. An empty formula gets the notice of
  \<^verbatim>\<open>st.info\<close> and nothing else; only a formula with entries gets the table, the metric
  \<^verbatim>\<open>Total de Partes\<close> and the text of the download button.
\<close>

datatype panel =
    Info string
  | FormulaActual (formula_df: "(string \<times> pyfloat) list") (metric: string) (download: string)

definition formula_vacia :: string where
  "formula_vacia = ''Tu f'' @ [CHR 0xC3, CHR 0xB3] @ ''rmula est'' @ [CHR 0xC3, CHR 0xA1] @
     '' vac'' @ [CHR 0xC3, CHR 0xAD] @ ''a. A'' @ [CHR 0xC3, CHR 0xB1] @
     ''ade ingredientes desde el panel izquierdo.''"

definition formula_panel :: "formula \<Rightarrow> panel" where
  "formula_panel formula =
     (if formula = [] then Info formula_vacia
      else (case formula_loop formula ([], header @ separator, IntN 0) of
              (formula_df_data, formula_str, total_partes) \<Rightarrow>
                FormulaActual formula_df_data (num_format_2f total_partes)
                  (formula_str @ separator @
                   ''TOTAL: '' @ num_format_2f total_partes @ '' partes'' @ newline)))"

text \<open>The metric and the exported text, when the panel shows them.\<close>

fun total_shown :: "panel \<Rightarrow> string option" where
  "total_shown (Info _) = None"
| "total_shown (FormulaActual _ m _) = Some m"

fun export :: "panel \<Rightarrow> string option" where
  "export (Info _) = None"
| "export (FormulaActual _ _ d) = Some d"

section \<open>The ingredient table and its projection\<close>

subsection \<open>Data frames\<close>

text \<open>
  A pandas \<^verbatim>\<open>DataFrame\<close> is a row index and a list of labelled columns. A cell holds
  a text, an integer or a float; a missing number is the float NaN. In a well-formed
  frame the labels differ and every column has one value per row.
\<close>

datatype cell = CStr string | CInt int | CFloat pyfloat

record dataframe =
  index_len :: nat
  columns :: "(string \<times> cell list) list"

definition wf_frame :: "dataframe \<Rightarrow> bool" where
  "wf_frame df = (distinct (map fst (columns df)) \<and>
     list_all (\<lambda>c. length (snd c) = index_len df) (columns df))"

text \<open>\<^verbatim>\<open>pd.DataFrame()\<close>: no rows and no columns.\<close>

definition empty_frame :: dataframe where
  "empty_frame = \<lparr>index_len = 0, columns = []\<rparr>"

text \<open>\<^verbatim>\<open>df.empty\<close>: one of the two axes has length 0.\<close>

definition df_empty :: "dataframe \<Rightarrow> bool" where
  "df_empty df = (index_len df = 0 \<or> columns df = [])"

text \<open>\<^verbatim>\<open>pd.DataFrame(data)\<close> from a dict of equally long lists, and
  \<^verbatim>\<open>df.rename(columns=...)\<close>.\<close>

definition DataFrame :: "(string \<times> cell list) list \<Rightarrow> dataframe" where
  "DataFrame data = \<lparr>index_len = (case data of [] \<Rightarrow> 0 | c # _ \<Rightarrow> length (snd c)), columns = data\<rparr>"

definition rename :: "(string \<times> string) list \<Rightarrow> dataframe \<Rightarrow> dataframe" where
  "rename names df =
     df\<lparr>columns := map (\<lambda>(label, vs). (case map_of names label of None \<Rightarrow> label | Some l \<Rightarrow> l, vs))
                        (columns df)\<rparr>"

text \<open>The values of a column that is present.\<close>

definition column :: "string \<Rightarrow> dataframe \<Rightarrow> cell list" where
  "column label df = (case map_of (columns df) label of None \<Rightarrow> [] | Some vs \<Rightarrow> vs)"

text \<open>\<^verbatim>\<open>df[label] = values\<close>: an existing column is replaced where it stands, a new
  one is added as the last.\<close>

fun assign :: "string \<Rightarrow> cell list \<Rightarrow> (string \<times> cell list) list \<Rightarrow> (string \<times> cell list) list" where
  "assign label vs [] = [(label, vs)]"
| "assign label vs ((k, c) # rest) =
     (if k = label then (k, vs) # rest else (k, c) # assign label vs rest)"

definition set_column :: "string \<Rightarrow> cell list \<Rightarrow> dataframe \<Rightarrow> dataframe" where
  "set_column label vs df = df\<lparr>columns := assign label vs (columns df)\<rparr>"

subsection \<open>The example table\<close>

definition mock_data :: "(string \<times> cell list) list" where
  "mock_data =
    [(''nombre'',
       [CStr (''Limoneno''),
        CStr (''Linalool''),
        CStr (''Vainillina''),
        CStr (''Etil Maltol''),
        CStr (''S'' @ [CHR 0xC3, CHR 0xA1] @ ''ndalo (Sandalore)''),
        CStr (''Iso E Super''),
        CStr (''Ambroxan''),
        CStr (''Rosa '' @ [CHR 0xC3, CHR 0x93] @ ''xido''),
        CStr (''Cis-3-Hexenol''),
        CStr (''Eugenol''),
        CStr (''Indol''),
        CStr (''Menta Piperita''),
        CStr (''Geraniol''),
        CStr (''Citronelol''),
        CStr (''Patchouli'')]),
     (''familia_olfativa'',
       [CStr (''C'' @ [CHR 0xC3, CHR 0xAD] @ ''trico''),
        CStr (''Floral''),
        CStr (''Gourmand''),
        CStr (''Gourmand''),
        CStr (''Amaderado''),
        CStr (''Amaderado''),
        CStr ([CHR 0xC3, CHR 0x81] @ ''mbar''),
        CStr (''Floral''),
        CStr (''Verde''),
        CStr (''Especiado''),
        CStr (''Animal''),
        CStr (''Herbal''),
        CStr (''Floral''),
        CStr (''Floral''),
        CStr (''Amaderado'')]),
     (''logp'',
       [CFloat (Finite 2448832297382707 (- 49)),
        CFloat (Finite 799388933858263 (- 48)),
        CFloat (Finite 1362338887279575 (- 50)),
        CFloat (Finite 3039929748475085 (- 51)),
        CFloat (Finite 2308094809027379 (- 49)),
        CFloat (Finite 11 (- 1)),
        CFloat (Finite 5404319552844595 (- 50)),
        CFloat (Finite 3039929748475085 (- 50)),
        CFloat (Finite 3152519739159347 (- 51)),
        CFloat (Finite 5111585577065513 (- 51)),
        CFloat (Finite 2589569785738035 (- 50)),
        CFloat (Finite 3152519739159347 (- 50)),
        CFloat (Finite 7656119366529843 (- 51)),
        CFloat (Finite 13 (- 2)),
        CFloat (Finite 9 (- 1))]),
     (''odor_value'',
       [CInt 800, CInt 600, CInt 1500, CInt 1200, CInt 300, CInt 200, CInt 400, CInt 900, CInt 1100, CInt 700, CInt 50, CInt 850, CInt 750, CInt 650, CInt 250]),
     (''cost'',
       [CInt 10, CInt 25, CInt 150, CInt 180, CInt 450, CInt 60, CInt 800, CInt 300, CInt 90, CInt 40, CInt 1200, CInt 30, CInt 50, CInt 55, CInt 120])]"

text \<open>\<^verbatim>\<open>get_mock_ingredients\<close>, without its cache.\<close>

definition get_mock_ingredients :: dataframe where
  "get_mock_ingredients =
     rename [(''logp'', ''logP''), (''familia_olfativa'', ''Familia Olfativa'')] (DataFrame mock_data)"

subsection \<open>Objects and effects\<close>

text \<open>
  Data frames are objects: the function below writes into the frame it is given and
  returns a reference. The store maps every reference to a frame; the references below
  \<open>next_ref\<close> are the ones in use. \<open>st_errors\<close> collects the texts shown by
  \<^verbatim>\<open>st.error\<close>.
\<close>

type_synonym ref = nat

record world =
  heap :: "ref \<Rightarrow> dataframe"
  next_ref :: ref
  st_errors :: "string list"

definition new_DataFrame :: "world \<Rightarrow> world \<times> ref" where
  "new_DataFrame w =
     (w\<lparr>heap := (heap w)(next_ref w := empty_frame), next_ref := Suc (next_ref w)\<rparr>, next_ref w)"

definition st_error :: "string \<Rightarrow> world \<Rightarrow> world" where
  "st_error text w = w\<lparr>st_errors := st_errors w @ [text]\<rparr>"

subsection \<open>The principal component analysis of scikit-learn\<close>

text \<open>
  \<^verbatim>\<open>PCA(n_components=3).fit_transform(features)\<close> belongs to scikit-learn. Its
  floating-point decomposition is not modelled: the library is a parameter with two
  parts, the validation of the input array (\<open>validate\<close>, which gives the exception
  raised for an array it refuses: text that is no number, NaN, an infinity) and the
  coordinates of each row of an accepted array (\<open>components\<close>). What is modelled of
  the library is the order of its steps and the shape of its result: the input is
  validated first; then a number of components above
  \<open>min(n_samples, n_features)\<close> raises \<^verbatim>\<open>ValueError\<close>; the result has one row of
  \<open>n_components\<close> coordinates per row of the input.
\<close>

datatype py_error = ValueError | TypeError | OverflowError

type_synonym matrix = "(cell \<times> cell \<times> cell) list"

record pca_library =
  validate :: "matrix \<Rightarrow> py_error option"
  components :: "matrix \<Rightarrow> nat \<Rightarrow> pyfloat \<times> pyfloat \<times> pyfloat"

definition n_features :: nat where
  "n_features = 3"

definition fit_transform ::
  "pca_library \<Rightarrow> nat \<Rightarrow> matrix \<Rightarrow> py_error + (pyfloat \<times> pyfloat \<times> pyfloat) list" where
  "fit_transform lib n_components X =
     (case validate lib X of
        Some e \<Rightarrow> Inl e
      | None \<Rightarrow>
          if min (length X) n_features < n_components then Inl ValueError
          else Inr (map (components lib X) [0..<length X]))"

subsection \<open>\<^verbatim>\<open>process_ingredients_pca\<close>\<close>

definition features_cols :: "string list" where
  "features_cols = [''logP'', ''odor_value'', ''cost'']"

text \<open>\<^verbatim>\<open>df[features_cols].values\<close>: one row of three cells per row of the frame.\<close>

definition features_values :: "dataframe \<Rightarrow> matrix" where
  "features_values df = zip (column ''logP'' df) (zip (column ''odor_value'' df) (column ''cost'' df))"

text \<open>\<^verbatim>\<open>all(col in df.columns for col in features_cols)\<close>.\<close>

definition has_features :: "dataframe \<Rightarrow> bool" where
  "has_features df = list_all (\<lambda>col. col \<in> set (map fst (columns df))) features_cols"

definition columnas_necesarias :: string where
  "columnas_necesarias =
     ''El DataFrame de ingredientes no tiene las columnas necesarias (logP, odor_value, cost).''"

text \<open>The three assignments of the coordinate columns.\<close>

definition add_dims :: "(pyfloat \<times> pyfloat \<times> pyfloat) list \<Rightarrow> dataframe \<Rightarrow> dataframe" where
  "add_dims coords df =
     set_column ''Dim 3 (Impacto)'' (map (\<lambda>(x, y, z). CFloat z) coords)
       (set_column ''Dim 2 (Tonalidad)'' (map (\<lambda>(x, y, z). CFloat y) coords)
         (set_column ''Dim 1 (Olfativo)'' (map (\<lambda>(x, y, z). CFloat x) coords) df))"

text \<open>
  The body of the function: what runs when the cache of \<^verbatim>\<open>@st.cache_data\<close> holds
  no result for the argument. \<open>df\<close> is the reference to the argument. The result is
  the world after the run and either the exception that left the body or the
  reference returned.
\<close>

definition process_ingredients_pca :: "pca_library \<Rightarrow> ref \<Rightarrow> world \<Rightarrow> world \<times> (py_error + ref)" where
  "process_ingredients_pca lib df w =
     (if df_empty (heap w df) then
        (case new_DataFrame w of (w', r) \<Rightarrow> (w', Inr r))
      else if \<not> has_features (heap w df) then
        (case new_DataFrame (st_error columnas_necesarias w) of (w', r) \<Rightarrow> (w', Inr r))
      else
        (case fit_transform lib 3 (features_values (heap w df)) of
           Inl e \<Rightarrow> (w, Inl e)
         | Inr coords \<Rightarrow> (w\<lparr>heap := (heap w)(df := add_dims coords (heap w df))\<rparr>, Inr df)))"

subsection \<open>The cache of \<^verbatim>\<open>@st.cache_data\<close>\<close>

text \<open>
  The name \<^verbatim>\<open>process_ingredients_pca\<close> of the program is the function under the
  decorator \<^verbatim>\<open>@st.cache_data\<close> of Streamlit. The decorator keeps, for the content
  of every argument the body has returned for, a pickled copy of the value returned
  and the texts the body showed. A call looks the content of its argument up.
  When there is an entry, the body does not run: the texts are shown again and a new
  object, a copy of the stored value, is returned. When there is none, the body runs
  on the argument itself; an exception leaves the call and stores nothing; a value
  returned is stored, under the content the argument had before the run, and then
  returned as it is.
\<close>

record cached_result =
  cached_value :: dataframe
  cached_messages :: "string list"

type_synonym data_cache = "(dataframe \<times> cached_result) list"

text \<open>A new object that holds a copy of a stored frame.\<close>

definition new_copy :: "dataframe \<Rightarrow> world \<Rightarrow> world \<times> ref" where
  "new_copy frame w =
     (w\<lparr>heap := (heap w)(next_ref w := frame), next_ref := Suc (next_ref w)\<rparr>, next_ref w)"

definition cached_process_ingredients_pca ::
  "pca_library \<Rightarrow> ref \<Rightarrow> data_cache \<times> world \<Rightarrow> (data_cache \<times> world) \<times> (py_error + ref)" where
  "cached_process_ingredients_pca lib df cw =
     (case cw of (cache, w) \<Rightarrow>
        (case map_of cache (heap w df) of
           Some hit \<Rightarrow>
             (case new_copy (cached_value hit) (w\<lparr>st_errors := st_errors w @ cached_messages hit\<rparr>) of
                (w', r) \<Rightarrow> ((cache, w'), Inr r))
         | None \<Rightarrow>
             (case process_ingredients_pca lib df w of
                (w', Inl e) \<Rightarrow> ((cache, w'), Inl e)
              | (w', Inr r) \<Rightarrow>
                  (((heap w df,
                     \<lparr>cached_value = heap w' r,
                      cached_messages = drop (length (st_errors w)) (st_errors w')\<rparr>) # cache, w'),
                   Inr r))))"

text \<open>The frame that a call returns, if it returns.\<close>

definition returned_frame :: "(data_cache \<times> world) \<times> (py_error + ref) \<Rightarrow> dataframe option" where
  "returned_frame res =
     (case res of ((cache, w), Inl e) \<Rightarrow> None | ((cache, w), Inr r) \<Rightarrow> Some (heap w r))"

text \<open>
  The entries of a cache come from runs of the body. \<open>cached_for lib k\<close> is the entry
  that a run of the body on a table of content \<open>k\<close> leaves, computed in a world that
  holds nothing but that table; \<open>cache_ok\<close> says that every entry of a cache is of
  this kind. The empty cache of a new process is.
\<close>

definition cached_for :: "pca_library \<Rightarrow> dataframe \<Rightarrow> cached_result option" where
  "cached_for lib k =
     (case process_ingredients_pca lib 0
             \<lparr>heap = (\<lambda>r. if r = 0 then k else empty_frame), next_ref = 1, st_errors = []\<rparr> of
        (w', Inl e) \<Rightarrow> None
      | (w', Inr r) \<Rightarrow> Some \<lparr>cached_value = heap w' r, cached_messages = st_errors w'\<rparr>)"

definition cache_ok :: "pca_library \<Rightarrow> data_cache \<Rightarrow> bool" where
  "cache_ok lib cache = list_all (\<lambda>(k, entry). cached_for lib k = Some entry) cache"


subsection \<open>The caller\<close>

text \<open>
  The start of the page, for the table \<open>df_ingredients\<close> that was loaded: the table
  is projected, and an empty result of the projection is reported with
  \<^verbatim>\<open>st.error\<close>; otherwise the tabs are drawn. The result tells whether the tabs
  are drawn. The projection is the run of the body, as in a first run of the page.
\<close>

definition no_se_pudieron :: string where
  "no_se_pudieron = ''No se pudieron cargar o procesar los datos de ingredientes.''"

definition page :: "pca_library \<Rightarrow> ref \<Rightarrow> world \<Rightarrow> world \<times> (py_error + bool)" where
  "page lib df_ingredients w =
     (case process_ingredients_pca lib df_ingredients w of
        (w', Inl e) \<Rightarrow> (w', Inl e)
      | (w', Inr df_processed) \<Rightarrow>
          if df_empty (heap w' df_processed) then (st_error no_se_pudieron w', Inr False)
          else (w', Inr True))"

section \<open>Example inputs\<close>

text \<open>
  A session whose only object, at reference 0, is the given table; and a stand-in for
  the library that accepts every array and places every row at the origin. The
  stand-in serves to run the examples; the theorems are about every library.
\<close>

definition session_with :: "dataframe \<Rightarrow> world" where
  "session_with df = \<lparr>heap = (\<lambda>r. if r = 0 then df else empty_frame), next_ref = 1, st_errors = []\<rparr>"

definition lenient_pca :: pca_library where
  "lenient_pca = \<lparr>validate = (\<lambda>X. None),
                   components = (\<lambda>X i. (Finite 0 0, Finite 0 0, Finite 0 0))\<rparr>"


definition catalog_of_two :: dataframe where
  "catalog_of_two = \<lparr>index_len = 2, columns =
     [(''nombre'', [CStr ''Limoneno'', CStr ''Linalool'']),
      (''Familia Olfativa'', [CStr (''C'' @ [CHR 0xC3, CHR 0xAD] @ ''trico''), CStr ''Floral'']),
      (''logP'', [CFloat (Finite 2448832297382707 (- 49)), CFloat (Finite 799388933858263 (- 48))]),
      (''odor_value'', [CInt 800, CInt 600]),
      (''cost'', [CInt 10, CInt 25])]\<rparr>"

definition catalog_sin_cost :: dataframe where
  "catalog_sin_cost = \<lparr>index_len = 1, columns =
     [(''nombre'', [CStr ''Limoneno'']),
      (''Familia Olfativa'', [CStr (''C'' @ [CHR 0xC3, CHR 0xAD] @ ''trico'')]),
      (''logP'', [CFloat (Finite 2448832297382707 (- 49))]),
      (''odor_value'', [CInt 800])]\<rparr>"

definition catalog_of_three :: dataframe where
  "catalog_of_three = \<lparr>index_len = 3, columns =
     [(''nombre'', [CStr ''Limoneno'', CStr ''Linalool'', CStr ''Vainillina'']),
      (''Familia Olfativa'',
         [CStr (''C'' @ [CHR 0xC3, CHR 0xAD] @ ''trico''), CStr ''Floral'', CStr ''Gourmand'']),
      (''logP'', [CFloat (Finite 2448832297382707 (- 49)), CFloat (Finite 799388933858263 (- 48)),
                 CFloat (Finite 1362338887279575 (- 50))]),
      (''odor_value'', [CInt 800, CInt 600, CInt 1500]),
      (''cost'', [CInt 10, CInt 25, CInt 150])]\<rparr>"

text \<open>A stand-in for a library that accepts every array and computes no number.\<close>

definition nan_pca :: pca_library where
  "nan_pca = \<lparr>validate = (\<lambda>X. None), components = (\<lambda>X i. (NaN, NaN, NaN))\<rparr>"

section \<open>Properties of the formula designer\<close>

lemma map_of_add_quantity_same:
  "map_of formula name = Some v \<Longrightarrow>
     map_of (add_quantity name q formula) name = Some (fadd v q)"
  by (induction formula) (auto split: if_splits)

lemma map_of_add_quantity_other:
  "k \<noteq> name \<Longrightarrow> map_of (add_quantity name q formula) k = map_of formula k"
  by (induction formula) auto

lemma map_of_append_new:
  "map_of formula name = None \<Longrightarrow> map_of (formula @ [(name, q)]) k = (if k = name then Some q else map_of formula k)"
  by (induction formula) (auto split: if_splits)

lemma in_keys_iff: "name \<in> fst ` set formula \<longleftrightarrow> map_of formula name \<noteq> None"
  by (simp add: map_of_eq_None_iff)

lemma add_ingredient_form_absent:
  "map_of formula name = None \<Longrightarrow>
     fst (add_ingredient_form name q formula) = formula @ [(name, q)]"
  by (simp add: add_ingredient_form_def in_keys_iff)

lemma add_ingredient_form_present:
  "map_of formula name = Some v \<Longrightarrow>
     fst (add_ingredient_form name q formula) = add_quantity name q formula"
  by (simp add: add_ingredient_form_def in_keys_iff)

lemma add_ingredient_form_message:
  "snd (add_ingredient_form name q formula) =
     ''A'' @ [CHR 0xC3, CHR 0xB1] @ ''adido '' @ float_repr q @ '' de '' @ name"
  by (simp add: add_ingredient_form_def)

text \<open>
  C2, as the code has it: the handler accepts every quantity, a zero or negative one
  as well. It reports success, and afterwards the name holds the quantity itself when
  it was absent and the old value plus the quantity when it was present; the other
  names keep their values. No error is raised: the function has no error result.
\<close>

theorem add_ingredient_form_accepts_every_quantity:
  "map_of (fst (add_ingredient_form name q formula)) k =
     (if k = name then Some (case map_of formula name of None \<Rightarrow> q | Some v \<Rightarrow> fadd v q)
      else map_of formula k)
   \<and> snd (add_ingredient_form name q formula) =
     ''A'' @ [CHR 0xC3, CHR 0xB1] @ ''adido '' @ float_repr q @ '' de '' @ name"
proof (cases "map_of formula name")
  case None
  then show ?thesis
    using map_of_append_new [of formula name q k]
    by (simp add: add_ingredient_form_absent add_ingredient_form_message)
next
  case (Some v)
  then show ?thesis
    using map_of_add_quantity_same [of formula name v q]
      map_of_add_quantity_other [of k name q formula]
    by (simp add: add_ingredient_form_present add_ingredient_form_message)
qed

text \<open>
  C2 fails as stated: adding the quantity \<open>0.0\<close>, or \<open>-1.0\<close>, to the empty formula
  stores it.
\<close>

theorem add_zero_changes_formula:
  "fst (add_ingredient_form ''Limoneno'' (Finite 0 0) []) = [(''Limoneno'', Finite 0 0)]
   \<and> fst (add_ingredient_form ''Limoneno'' (Finite (- 1) 0) []) = [(''Limoneno'', Finite (- 1) 0)]
   \<and> fst (add_ingredient_form ''Limoneno'' (Finite 0 0) []) \<noteq> []"
  by (simp add: add_ingredient_form_def)

text \<open>
  C10, as the code has it: clearing leaves the formula empty, clearing again leaves it
  empty, and for the cleared formula the panel shows the notice of the empty formula:
  no table, no total and no export text are produced.
\<close>

theorem limpiar_formula_idempotent:
  "limpiar_formula formula = []
   \<and> limpiar_formula (limpiar_formula formula) = []
   \<and> formula_panel (limpiar_formula formula) = Info formula_vacia
   \<and> total_shown (formula_panel (limpiar_formula formula)) = None"
  by (simp add: limpiar_formula_def formula_panel_def)

text \<open>
  C10 fails as stated: after clearing a formula that held one ingredient, no total
  \<open>0.00\<close> is shown.
\<close>

theorem no_total_after_limpiar:
  "total_shown (formula_panel (limpiar_formula [(''Limoneno'', Finite 1 1)])) \<noteq> Some ''0.00''"
  by (simp add: limpiar_formula_def formula_panel_def)

subsection \<open>The export text\<close>

lemma formula_loop_acc:
  "formula_loop items (rows, s, t) =
     (rows @ items,
      s @ concat (map (\<lambda>(nombre, cantidad). nombre @ '': '' @ float_repr cantidad @ newline) items),
      foldl num_add t (map snd items))"
  by (induction items arbitrary: rows s t) auto

lemma float_of_int_0: "float_of_int 0 = Finite 0 0"
  by (simp add: float_of_int_def round_ratio_def make_float_def)

lemma foldl_num_add_FloatN: "foldl num_add (FloatN t) qs = FloatN (foldl fadd t qs)"
  by (induction qs arbitrary: t) auto

lemma total_partes_float_sum:
  "qs \<noteq> [] \<Longrightarrow> foldl num_add (IntN 0) qs = FloatN (foldl fadd (Finite 0 0) qs)"
  by (cases qs) (auto simp: float_of_int_0 foldl_num_add_FloatN)

lemma formula_panel_nonempty:
  "formula \<noteq> [] \<Longrightarrow>
     formula_panel formula =
       FormulaActual formula (format_2f (foldl fadd (Finite 0 0) (map snd formula)))
         (header @ separator @
          concat (map (\<lambda>(nombre, cantidad). nombre @ '': '' @ float_repr cantidad @ newline) formula) @
          separator @
          ''TOTAL: '' @ format_2f (foldl fadd (Finite 0 0) (map snd formula)) @ '' partes'' @ newline)"
  by (simp add: formula_panel_def formula_loop_acc total_partes_float_sum)

lemma separator_text: "separator = ''===================='' @ [CHR 0x0A]"
  by (simp add: separator_def newline_def eval_nat_numeral)

lemma header_text: "header = ''F'' @ [CHR 0xC3, CHR 0x93] @ ''RMULA DE PERFUME'' @ [CHR 0x0A]"
  by (simp add: header_def newline_def)

subsection \<open>Float arithmetic and formatting at the values of the examples\<close>

lemmas arith_defs = round_ratio_def ilog_def rhe_div_def Let_def floor_log.simps strip_zeros.simps

lemma try_digits_2_0: "try_digits 2 (Suc 0) (Suc 0, 1) 0 = Some (2, 0)"
  by (simp add: try_digits_def arith_defs)

lemma shortest_digits_2_0: "shortest_digits 2 (Suc 0) (Suc 0, 1) 0 (Suc 0) = (2, 0)"
  by (subst shortest_digits.simps) (simp add: try_digits_2_0)

lemma ilog_10_2: "ilog 10 2 (Suc 0) = 0"
  by (simp add: ilog_def floor_log.simps)

lemma digits10_2: "digits10 2 = ''2''"
  by (simp add: digits10.simps digit_char_def)

lemma float_repr_2_0: "float_repr (Finite 1 1) = ''2.0''"
  by (simp add: float_repr_def magnitude_def ilog_10_2 shortest_digits_2_0 digits10_2
      strip_trailing_zeros_def repr_layout_def)

lemma try_digits_1_5_one: "try_digits 3 2 (3, - 1) 0 = None"
  by (simp add: try_digits_def arith_defs)

lemma try_digits_1_5_two: "try_digits 3 2 (3, - 1) (- 1) = Some (15, - 1)"
  by (simp add: try_digits_def arith_defs)

lemma shortest_digits_1_5: "shortest_digits 3 2 (3, - 1) 0 (Suc 0) = (15, - 1)"
  apply (subst shortest_digits.simps)
  apply (simp add: try_digits_1_5_one)
  apply (subst shortest_digits.simps)
  apply (simp add: try_digits_1_5_two)
  done

lemma ilog_10_1_5: "ilog 10 3 2 = 0"
  by (simp add: ilog_def floor_log.simps)

lemma digits10_15: "digits10 15 = ''15''"
  by (simp add: digits10.simps digit_char_def)

lemma float_repr_1_5: "float_repr (Finite 3 (- 1)) = ''1.5''"
  by (simp add: float_repr_def magnitude_def ilog_10_1_5 shortest_digits_1_5 digits10_15
      strip_trailing_zeros_def repr_layout_def)

lemma finite_sum_0_2: "finite_sum 0 0 1 1 = Finite 1 1"
  apply (simp add: finite_sum_def)
  apply (simp add: arith_defs make_float_def)
  done

lemma finite_sum_2_1_5: "finite_sum 1 1 3 (- 1) = Finite 7 (- 1)"
  apply (simp add: finite_sum_def)
  apply (simp add: arith_defs make_float_def)
  done

lemma format_2f_3_5: "format_2f (Finite 7 (- 1)) = ''3.50''"
  apply (simp add: format_2f_def magnitude_def)
  apply (simp add: rhe_div_def Let_def)
  apply (simp add: digit_char_def digits10.simps)
  done

lemma format_2f_2_0: "format_2f (Finite 1 1) = ''2.00''"
  apply (simp add: format_2f_def magnitude_def)
  apply (simp add: rhe_div_def Let_def)
  apply (simp add: digit_char_def digits10.simps)
  done

lemma limoneno_linalool:
  "fst (add_ingredient_form ''Linalool'' (Finite 3 (- 1))
         (fst (add_ingredient_form ''Limoneno'' (Finite 1 1) []))) =
     [(''Limoneno'', Finite 1 1), (''Linalool'', Finite 3 (- 1))]"
  by (simp add: add_ingredient_form_def)

text \<open>
  C1: for a formula with entries the exported text is the header line, the line of
  twenty \<open>=\<close>, one line \<open>name: quantity\<close> per ingredient in the order of insertion, the
  line of twenty \<open>=\<close> again and the line \<open>TOTAL: total partes\<close>, where the total is
  the float sum of the quantities, taken from \<open>0\<close> in the order of insertion and
  printed with two decimals. For the formula built by adding \<open>2.0\<close> of Limoneno and
  then \<open>1.5\<close> of Linalool the text is the block of the specification, every line
  ended by a line feed.
\<close>

theorem export_text_format:
  "(formula \<noteq> [] \<longrightarrow>
      export (formula_panel formula) = Some (
        ''F'' @ [CHR 0xC3, CHR 0x93] @ ''RMULA DE PERFUME'' @ [CHR 0x0A] @
        ''===================='' @ [CHR 0x0A] @
        concat (map (\<lambda>(nombre, cantidad). nombre @ '': '' @ float_repr cantidad @ [CHR 0x0A]) formula) @
        ''===================='' @ [CHR 0x0A] @
        ''TOTAL: '' @ format_2f (foldl fadd (Finite 0 0) (map snd formula)) @ '' partes'' @ [CHR 0x0A]))
   \<and> export (formula_panel
        (fst (add_ingredient_form ''Linalool'' (Finite 3 (- 1))
           (fst (add_ingredient_form ''Limoneno'' (Finite 1 1) []))))) = Some (
        ''F'' @ [CHR 0xC3, CHR 0x93] @ ''RMULA DE PERFUME'' @ [CHR 0x0A] @
        ''===================='' @ [CHR 0x0A] @
        ''Limoneno: 2.0'' @ [CHR 0x0A] @
        ''Linalool: 1.5'' @ [CHR 0x0A] @
        ''===================='' @ [CHR 0x0A] @
        ''TOTAL: 3.50 partes'' @ [CHR 0x0A])"
proof (intro conjI impI)
  assume "formula \<noteq> []"
  then show "export (formula_panel formula) = Some (
        ''F'' @ [CHR 0xC3, CHR 0x93] @ ''RMULA DE PERFUME'' @ [CHR 0x0A] @
        ''===================='' @ [CHR 0x0A] @
        concat (map (\<lambda>(nombre, cantidad). nombre @ '': '' @ float_repr cantidad @ [CHR 0x0A]) formula) @
        ''===================='' @ [CHR 0x0A] @
        ''TOTAL: '' @ format_2f (foldl fadd (Finite 0 0) (map snd formula)) @ '' partes'' @ [CHR 0x0A])"
    by (simp add: formula_panel_nonempty header_text separator_text newline_def)
next
  show "export (formula_panel
        (fst (add_ingredient_form ''Linalool'' (Finite 3 (- 1))
           (fst (add_ingredient_form ''Limoneno'' (Finite 1 1) []))))) = Some (
        ''F'' @ [CHR 0xC3, CHR 0x93] @ ''RMULA DE PERFUME'' @ [CHR 0x0A] @
        ''===================='' @ [CHR 0x0A] @
        ''Limoneno: 2.0'' @ [CHR 0x0A] @
        ''Linalool: 1.5'' @ [CHR 0x0A] @
        ''===================='' @ [CHR 0x0A] @
        ''TOTAL: 3.50 partes'' @ [CHR 0x0A])"
    by (simp add: limoneno_linalool formula_panel_nonempty header_text separator_text
        newline_def float_repr_2_0 float_repr_1_5 finite_sum_0_2 finite_sum_2_1_5
        format_2f_3_5)
qed

theorem export_text_format_witness:
  "[(''Limoneno'', Finite 1 1)] \<noteq> []
   \<and> export (formula_panel [(''Limoneno'', Finite 1 1)]) = Some (
        ''F'' @ [CHR 0xC3, CHR 0x93] @ ''RMULA DE PERFUME'' @ [CHR 0x0A] @
        ''===================='' @ [CHR 0x0A] @
        ''Limoneno: 2.0'' @ [CHR 0x0A] @
        ''===================='' @ [CHR 0x0A] @
        ''TOTAL: 2.00 partes'' @ [CHR 0x0A])"
  using export_text_format [of "[(''Limoneno'', Finite 1 1)]"]
  by (simp add: float_repr_2_0 finite_sum_0_2 format_2f_2_0)

subsection \<open>Accumulation\<close>

lemma finite_sum_1_1: "finite_sum 1 0 1 0 = Finite 1 1"
  apply (simp add: finite_sum_def)
  apply (simp add: arith_defs make_float_def)
  done

lemma finite_sum_2_1: "finite_sum 1 1 1 0 = Finite 3 0"
  apply (simp add: finite_sum_def)
  apply (simp add: arith_defs make_float_def)
  done

lemma finite_sum_0_big: "finite_sum 0 0 1 53 = Finite 1 53"
  apply (simp add: finite_sum_def)
  apply (simp add: arith_defs make_float_def)
  done

lemma finite_sum_big_1: "finite_sum 1 53 1 0 = Finite 1 53"
  apply (simp add: finite_sum_def)
  apply (simp add: arith_defs make_float_def)
  done

lemma format_2f_big: "format_2f (Finite 1 53) = ''9007199254740992.00''"
  apply (simp add: format_2f_def magnitude_def)
  apply (simp add: rhe_div_def Let_def)
  apply (simp add: digit_char_def digits10.simps)
  done

text \<open>
  C6, as the code has it: two additions of the same name leave it with the float sum
  \<open>q1 + q2\<close> when the name was absent before, and with \<open>(v + q1) + q2\<close> when it held
  \<open>v\<close>: the quantities are added to what is stored, nothing is replaced. The total that
  the panel of a formula with entries reports is the float sum of the stored
  quantities, taken from \<open>0\<close> in the order of insertion, each addition rounded to the
  nearest float, and printed with two decimals.
\<close>

theorem add_twice_accumulates:
  "map_of (fst (add_ingredient_form name q2 (fst (add_ingredient_form name q1 formula)))) name =
     Some (case map_of formula name of
             None \<Rightarrow> fadd q1 q2
           | Some v \<Rightarrow> fadd (fadd v q1) q2)
   \<and> (formula \<noteq> [] \<longrightarrow>
        total_shown (formula_panel formula) =
          Some (format_2f (foldl fadd (Finite 0 0) (map snd formula))))"
proof (intro conjI impI)
  have first: "map_of (fst (add_ingredient_form name q1 formula)) name =
      Some (case map_of formula name of None \<Rightarrow> q1 | Some v \<Rightarrow> fadd v q1)"
  proof (cases "map_of formula name")
    case None
    then show ?thesis
      by (simp add: add_ingredient_form_absent map_add_def)
  next
    case (Some v)
    then show ?thesis
      by (simp add: add_ingredient_form_present map_of_add_quantity_same)
  qed
  then have "fst (add_ingredient_form name q2 (fst (add_ingredient_form name q1 formula))) =
      add_quantity name q2 (fst (add_ingredient_form name q1 formula))"
    by (rule add_ingredient_form_present)
  with first show "map_of (fst (add_ingredient_form name q2
        (fst (add_ingredient_form name q1 formula)))) name =
      Some (case map_of formula name of None \<Rightarrow> fadd q1 q2 | Some v \<Rightarrow> fadd (fadd v q1) q2)"
    by (simp add: map_of_add_quantity_same split: option.split)
next
  assume "formula \<noteq> []"
  then show "total_shown (formula_panel formula) =
      Some (format_2f (foldl fadd (Finite 0 0) (map snd formula)))"
    by (simp add: formula_panel_nonempty)
qed

theorem add_twice_accumulates_witness:
  "map_of (fst (add_ingredient_form ''Limoneno'' (Finite 3 (- 1))
      (fst (add_ingredient_form ''Limoneno'' (Finite 1 1) [])))) ''Limoneno'' = Some (Finite 7 (- 1))
   \<and> [(''Limoneno'', Finite 1 1)] \<noteq> []
   \<and> total_shown (formula_panel [(''Limoneno'', Finite 1 1)]) = Some ''2.00''"
  using add_twice_accumulates [of "''Limoneno''" "Finite 3 (- 1)" "Finite 1 1" "[]"]
    add_twice_accumulates [of "''Limoneno''" "Finite 3 (- 1)" "Finite 1 1" "[(''Limoneno'', Finite 1 1)]"]
  by (simp add: finite_sum_2_1_5 finite_sum_0_2 format_2f_2_0)

text \<open>
  C6 fails as stated, twice. A name that already holds \<open>1.0\<close> holds \<open>3.0\<close>, not
  \<open>1.0 + 1.0\<close>, after two additions of \<open>1.0\<close>. And for the formula of
  \<open>9007199254740992.0\<close> parts of one ingredient and \<open>1.0\<close> part of another the total
  reported is \<open>9007199254740992.00\<close>, while the quantities stored sum to
  \<open>9007199254740993\<close>: the distance is \<open>1\<close>, far above \<open>1e-9\<close>.
\<close>

theorem add_twice_counterexample:
  "map_of (fst (add_ingredient_form ''Limoneno'' (Finite 1 0)
      (fst (add_ingredient_form ''Limoneno'' (Finite 1 0) [(''Limoneno'', Finite 1 0)]))))
      ''Limoneno'' = Some (Finite 3 0)
   \<and> fadd (Finite 1 0) (Finite 1 0) = Finite 1 1
   \<and> total_shown (formula_panel [(''Iso E Super'', Finite 1 53), (''Limoneno'', Finite 1 0)]) =
       Some ''9007199254740992.00''
   \<and> float_value (Finite 1 53) = Some 9007199254740992
   \<and> float_value (Finite 1 0) = Some 1"
  by (simp add: add_ingredient_form_def formula_panel_nonempty finite_sum_1_1 finite_sum_2_1
      finite_sum_0_big finite_sum_big_1 format_2f_big)

section \<open>Properties of the projection\<close>

lemma map_of_assign:
  "map_of (assign label vs cols) k = (if k = label then Some vs else map_of cols k)"
  by (induction cols) auto

lemma index_len_add_dims: "index_len (add_dims coords df) = index_len df"
  by (simp add: add_dims_def set_column_def)

lemma map_of_add_dims:
  "map_of (columns (add_dims coords df)) k =
     (if k = ''Dim 3 (Impacto)'' then Some (map (\<lambda>(x, y, z). CFloat z) coords)
      else if k = ''Dim 2 (Tonalidad)'' then Some (map (\<lambda>(x, y, z). CFloat y) coords)
      else if k = ''Dim 1 (Olfativo)'' then Some (map (\<lambda>(x, y, z). CFloat x) coords)
      else map_of (columns df) k)"
  by (simp add: add_dims_def set_column_def map_of_assign)

lemma length_column:
  assumes "wf_frame df" and "label \<in> set (map fst (columns df))"
  shows "length (column label df) = index_len df"
proof -
  from assms(2) obtain vs where vs: "map_of (columns df) label = Some vs"
    by (cases "map_of (columns df) label") (auto simp: map_of_eq_None_iff)
  then have "(label, vs) \<in> set (columns df)"
    by (rule map_of_SomeD)
  with assms(1) have "length vs = index_len df"
    by (auto simp: wf_frame_def list_all_iff)
  with vs show ?thesis
    by (simp add: column_def)
qed

lemma length_features_values:
  assumes "wf_frame df" and "has_features df"
  shows "length (features_values df) = index_len df"
  using assms length_column [of df]
  by (simp add: features_values_def has_features_def features_cols_def)

lemma has_features_not_no_columns: "has_features df \<Longrightarrow> columns df \<noteq> []"
  by (auto simp: has_features_def features_cols_def)

lemma process_empty:
  "df_empty (heap w df) \<Longrightarrow>
     process_ingredients_pca lib df w =
       (w\<lparr>heap := (heap w)(next_ref w := empty_frame), next_ref := Suc (next_ref w)\<rparr>,
        Inr (next_ref w))"
  by (simp add: process_ingredients_pca_def new_DataFrame_def)

lemma process_missing:
  "\<not> df_empty (heap w df) \<Longrightarrow> \<not> has_features (heap w df) \<Longrightarrow>
     process_ingredients_pca lib df w =
       (w\<lparr>st_errors := st_errors w @ [columnas_necesarias],
          heap := (heap w)(next_ref w := empty_frame), next_ref := Suc (next_ref w)\<rparr>,
        Inr (next_ref w))"
  by (simp add: process_ingredients_pca_def new_DataFrame_def st_error_def)

lemma process_fit:
  "\<not> df_empty (heap w df) \<Longrightarrow> has_features (heap w df) \<Longrightarrow>
     process_ingredients_pca lib df w =
       (case fit_transform lib 3 (features_values (heap w df)) of
          Inl e \<Rightarrow> (w, Inl e)
        | Inr coords \<Rightarrow> (w\<lparr>heap := (heap w)(df := add_dims coords (heap w df))\<rparr>, Inr df))"
  by (simp add: process_ingredients_pca_def)

lemma fit_transform_few_rows:
  "length X < 3 \<Longrightarrow>
     fit_transform lib 3 X = Inl (case validate lib X of None \<Rightarrow> ValueError | Some e \<Rightarrow> e)"
  by (simp add: fit_transform_def n_features_def split: option.split)

lemma fit_transform_enough_rows:
  "3 \<le> length X \<Longrightarrow> validate lib X = None \<Longrightarrow>
     fit_transform lib 3 X = Inr (map (components lib X) [0..<length X])"
  by (simp add: fit_transform_def n_features_def)

lemma fit_transform_refused:
  "validate lib X = Some e \<Longrightarrow> fit_transform lib 3 X = Inl e"
  by (simp add: fit_transform_def)

lemma process_few_rows:
  assumes "wf_frame (heap w df)" and "has_features (heap w df)"
    and "0 < index_len (heap w df)" and "index_len (heap w df) < 3"
  shows "process_ingredients_pca lib df w =
     (w, Inl (case validate lib (features_values (heap w df)) of None \<Rightarrow> ValueError | Some e \<Rightarrow> e))"
proof -
  from assms have "\<not> df_empty (heap w df)"
    by (simp add: df_empty_def has_features_not_no_columns)
  moreover from assms have "length (features_values (heap w df)) < 3"
    by (simp add: length_features_values)
  ultimately show ?thesis
    using assms(2) by (simp add: process_fit fit_transform_few_rows)
qed

lemma process_enough_rows:
  assumes "wf_frame (heap w df)" and "has_features (heap w df)"
    and "3 \<le> index_len (heap w df)" and "validate lib (features_values (heap w df)) = None"
  shows "process_ingredients_pca lib df w =
     (w\<lparr>heap := (heap w)(df :=
          add_dims (map (components lib (features_values (heap w df))) [0..<index_len (heap w df)])
            (heap w df))\<rparr>,
      Inr df)"
proof -
  from assms have "\<not> df_empty (heap w df)"
    by (simp add: df_empty_def has_features_not_no_columns)
  moreover from assms have "length (features_values (heap w df)) = index_len (heap w df)"
    by (simp add: length_features_values)
  ultimately show ?thesis
    using assms by (simp add: process_fit fit_transform_enough_rows)
qed

lemma wf_catalog_of_two: "wf_frame catalog_of_two \<and> has_features catalog_of_two"
  by (simp add: wf_frame_def has_features_def features_cols_def catalog_of_two_def)

lemma wf_catalog_of_three: "wf_frame catalog_of_three \<and> has_features catalog_of_three"
  by (simp add: wf_frame_def has_features_def features_cols_def catalog_of_three_def)


lemma wf_get_mock_ingredients:
  "wf_frame get_mock_ingredients \<and> has_features get_mock_ingredients
   \<and> index_len get_mock_ingredients = 15"
  by (simp add: wf_frame_def has_features_def features_cols_def get_mock_ingredients_def
      rename_def DataFrame_def mock_data_def)

text \<open>
  C3, as the code has it: a table of one or two rows with the three columns is not
  projected. The call of \<^verbatim>\<open>fit_transform\<close> raises, \<^verbatim>\<open>ValueError\<close> when the
  library accepts the values (three components are more than the number of rows),
  and the function leaves with that exception and an unchanged world; nothing is
  padded with zeros. A table of three rows whose values the library accepts is
  projected: the function returns, and each coordinate column has three values.
\<close>

theorem small_catalog_projection:
  assumes "wf_frame (heap w df)" and "has_features (heap w df)"
  shows "(index_len (heap w df) = 1 \<or> index_len (heap w df) = 2 \<longrightarrow>
            process_ingredients_pca lib df w =
              (w, Inl (case validate lib (features_values (heap w df)) of
                         None \<Rightarrow> ValueError | Some e \<Rightarrow> e)))
       \<and> (index_len (heap w df) = 3 \<and> validate lib (features_values (heap w df)) = None \<longrightarrow>
            snd (process_ingredients_pca lib df w) = Inr df
            \<and> index_len (heap (fst (process_ingredients_pca lib df w)) df) = 3
            \<and> length (column ''Dim 1 (Olfativo)'' (heap (fst (process_ingredients_pca lib df w)) df)) = 3
            \<and> length (column ''Dim 2 (Tonalidad)'' (heap (fst (process_ingredients_pca lib df w)) df)) = 3
            \<and> length (column ''Dim 3 (Impacto)'' (heap (fst (process_ingredients_pca lib df w)) df)) = 3)"
proof (intro conjI impI)
  assume "index_len (heap w df) = 1 \<or> index_len (heap w df) = 2"
  then have "0 < index_len (heap w df)" and "index_len (heap w df) < 3"
    by auto
  with assms show "process_ingredients_pca lib df w =
      (w, Inl (case validate lib (features_values (heap w df)) of
                 None \<Rightarrow> ValueError | Some e \<Rightarrow> e))"
    by (rule process_few_rows)
next
  assume three: "index_len (heap w df) = 3 \<and> validate lib (features_values (heap w df)) = None"
  with assms have run: "process_ingredients_pca lib df w =
     (w\<lparr>heap := (heap w)(df :=
          add_dims (map (components lib (features_values (heap w df))) [0..<index_len (heap w df)])
            (heap w df))\<rparr>,
      Inr df)"
    by (intro process_enough_rows) simp_all
  show "snd (process_ingredients_pca lib df w) = Inr df"
    by (simp add: run)
  show "index_len (heap (fst (process_ingredients_pca lib df w)) df) = 3"
    using three by (simp add: run index_len_add_dims)
  show "length (column ''Dim 1 (Olfativo)'' (heap (fst (process_ingredients_pca lib df w)) df)) = 3"
    using three by (simp add: run column_def map_of_add_dims)
  show "length (column ''Dim 2 (Tonalidad)'' (heap (fst (process_ingredients_pca lib df w)) df)) = 3"
    using three by (simp add: run column_def map_of_add_dims)
  show "length (column ''Dim 3 (Impacto)'' (heap (fst (process_ingredients_pca lib df w)) df)) = 3"
    using three by (simp add: run column_def map_of_add_dims)
qed

theorem small_catalog_projection_witness:
  "wf_frame catalog_of_two \<and> has_features catalog_of_two \<and> index_len catalog_of_two = 2
   \<and> process_ingredients_pca lenient_pca 0 (session_with catalog_of_two) =
       (session_with catalog_of_two, Inl ValueError)
   \<and> wf_frame catalog_of_three \<and> has_features catalog_of_three \<and> index_len catalog_of_three = 3
   \<and> validate lenient_pca (features_values catalog_of_three) = None
   \<and> snd (process_ingredients_pca lenient_pca 0 (session_with catalog_of_three)) = Inr 0
   \<and> length (column ''Dim 1 (Olfativo)''
        (heap (fst (process_ingredients_pca lenient_pca 0 (session_with catalog_of_three))) 0)) = 3"
proof -
  have two: "index_len catalog_of_two = 2"
    by (simp add: catalog_of_two_def)
  have three: "index_len catalog_of_three = 3"
    by (simp add: catalog_of_three_def)
  have lenient: "validate lenient_pca X = None" for X
    by (simp add: lenient_pca_def)
  have heap0: "heap (session_with d) 0 = d" for d
    by (simp add: session_with_def)
  show ?thesis
    using small_catalog_projection [of "session_with catalog_of_two" 0 lenient_pca]
      small_catalog_projection [of "session_with catalog_of_three" 0 lenient_pca]
      wf_catalog_of_two wf_catalog_of_three
    by (simp add: heap0 two three lenient)
qed

text \<open>
  C3 fails as stated: for the first two rows of the example table, and a library that
  accepts every array, the function leaves with \<^verbatim>\<open>ValueError\<close>.
\<close>

theorem two_rows_raise:
  "snd (process_ingredients_pca lenient_pca 0 (session_with catalog_of_two)) = Inl ValueError"
  using process_few_rows [of "session_with catalog_of_two" 0 lenient_pca] wf_catalog_of_two
  by (simp add: session_with_def lenient_pca_def catalog_of_two_def)

subsection \<open>The cached call\<close>

lemma cached_miss:
  "map_of cache (heap w df) = None \<Longrightarrow>
     snd (cached_process_ingredients_pca lib df (cache, w)) = snd (process_ingredients_pca lib df w)
     \<and> snd (fst (cached_process_ingredients_pca lib df (cache, w))) =
         fst (process_ingredients_pca lib df w)"
  by (simp add: cached_process_ingredients_pca_def split: prod.split sum.split)

lemma cached_hit:
  "map_of cache (heap w df) = Some hit \<Longrightarrow>
     cached_process_ingredients_pca lib df (cache, w) =
       ((cache, w\<lparr>st_errors := st_errors w @ cached_messages hit,
                  heap := (heap w)(next_ref w := cached_value hit),
                  next_ref := Suc (next_ref w)\<rparr>),
        Inr (next_ref w))"
  by (simp add: cached_process_ingredients_pca_def new_copy_def)


lemma cache_ok_empty: "cache_ok lib []"
  by (simp add: cache_ok_def)


lemma cached_for_enough_rows:
  assumes "wf_frame k" and "has_features k" and "3 \<le> index_len k"
    and "validate lib (features_values k) = None"
  shows "cached_for lib k =
     Some \<lparr>cached_value = add_dims (map (components lib (features_values k)) [0..<index_len k]) k,
           cached_messages = []\<rparr>"
  using assms
    process_enough_rows [of "\<lparr>heap = (\<lambda>r. if r = 0 then k else empty_frame), next_ref = 1,
      st_errors = []\<rparr>" 0 lib]
  by (simp add: cached_for_def)

lemma cached_returns_projection:
  assumes "wf_frame (heap w df)" and "has_features (heap w df)"
    and "3 \<le> index_len (heap w df)"
    and "validate lib (features_values (heap w df)) = None"
    and "cache_ok lib cache"
  shows "returned_frame (cached_process_ingredients_pca lib df (cache, w)) =
     Some (add_dims (map (components lib (features_values (heap w df)))
                      [0..<index_len (heap w df)]) (heap w df))"
proof (cases "map_of cache (heap w df)")
  case None
  then show ?thesis
    using process_enough_rows [OF assms(1-4)]
    by (simp add: cached_process_ingredients_pca_def returned_frame_def)
next
  case (Some hit)
  then have "(heap w df, hit) \<in> set cache"
    by (rule map_of_SomeD)
  with assms(5) have "cached_for lib (heap w df) = Some hit"
    by (auto simp: cache_ok_def list_all_iff)
  with cached_for_enough_rows [OF assms(1-4)] have "cached_value hit =
      add_dims (map (components lib (features_values (heap w df)))
                  [0..<index_len (heap w df)]) (heap w df)"
    by auto
  with Some show ?thesis
    by (simp add: cached_hit returned_frame_def)
qed







text \<open>
  The hypothesis on the coordinates of the library is needed: the function has no
  test of what the library computes and stores it as it comes.
\<close>

lemma coordinates_are_stored_as_computed:
  "returned_frame (cached_process_ingredients_pca nan_pca 0 ([], session_with catalog_of_three)) =
     Some (add_dims [(NaN, NaN, NaN), (NaN, NaN, NaN), (NaN, NaN, NaN)] catalog_of_three)
   \<and> column ''Dim 1 (Olfativo)''
        (add_dims [(NaN, NaN, NaN), (NaN, NaN, NaN), (NaN, NaN, NaN)] catalog_of_three) =
       [CFloat NaN, CFloat NaN, CFloat NaN]"
proof -
  have heap0: "heap (session_with catalog_of_three) 0 = catalog_of_three"
    by (simp add: session_with_def)
  have rows: "index_len catalog_of_three = 3"
    by (simp add: catalog_of_three_def)
  have upt3: "[0..<3] = [0, Suc 0, Suc (Suc 0)]"
    by (simp add: upt_rec numeral_3_eq_3)
  have "returned_frame (cached_process_ingredients_pca nan_pca 0
      ([], session_with catalog_of_three)) =
    Some (add_dims (map (components nan_pca (features_values catalog_of_three)) [0..<3])
      catalog_of_three)"
    using cached_returns_projection [of "session_with catalog_of_three" 0 nan_pca "[]"]
      wf_catalog_of_three
    by (simp add: heap0 rows nan_pca_def cache_ok_empty)
  then show ?thesis
    by (simp add: upt3 nan_pca_def column_def map_of_add_dims)
qed


text \<open>
  C4, as the code has it: for a table with rows in which one of the columns
  \<^verbatim>\<open>logP\<close>, \<^verbatim>\<open>odor_value\<close>, \<^verbatim>\<open>cost\<close> is absent, the function shows the fixed text
  \<open>columnas_necesarias\<close>, which names the three columns and no row, and returns a new
  empty frame; it raises nothing. This happens whatever the library is, so before any
  numeric work, and the table given is left as it was.
\<close>

theorem missing_column_gives_empty_frame:
  assumes "\<not> df_empty (heap w df)" and "\<not> has_features (heap w df)" and "df < next_ref w"
  shows "process_ingredients_pca lib df w =
       (w\<lparr>st_errors := st_errors w @ [columnas_necesarias],
          heap := (heap w)(next_ref w := empty_frame), next_ref := Suc (next_ref w)\<rparr>,
        Inr (next_ref w))
     \<and> heap (fst (process_ingredients_pca lib df w)) (next_ref w) = empty_frame
     \<and> heap (fst (process_ingredients_pca lib df w)) df = heap w df"
  using assms by (simp add: process_missing)

theorem missing_column_gives_empty_frame_witness:
  "\<not> df_empty catalog_sin_cost \<and> \<not> has_features catalog_sin_cost
   \<and> (0::nat) < next_ref (session_with catalog_sin_cost)
   \<and> snd (process_ingredients_pca lenient_pca 0 (session_with catalog_sin_cost)) = Inr 1
   \<and> heap (fst (process_ingredients_pca lenient_pca 0 (session_with catalog_sin_cost))) 0 =
       catalog_sin_cost"
proof -
  have a: "\<not> df_empty catalog_sin_cost"
    by (simp add: df_empty_def catalog_sin_cost_def)
  have b: "\<not> has_features catalog_sin_cost"
    by (simp add: has_features_def features_cols_def catalog_sin_cost_def)
  have heap0: "heap (session_with d) 0 = d" "next_ref (session_with d) = 1" for d
    by (simp_all add: session_with_def)
  show ?thesis
    using missing_column_gives_empty_frame [of "session_with catalog_sin_cost" 0 lenient_pca] a b
    by (simp add: heap0)
qed

text \<open>
  C4 fails as stated: for the one-row table without the column \<^verbatim>\<open>cost\<close> the function
  does not fail. It returns a reference, to an empty frame, and the one text it shows
  is the fixed one.
\<close>

theorem missing_cost_returns:
  "snd (process_ingredients_pca lenient_pca 0 (session_with catalog_sin_cost)) = Inr 1
   \<and> heap (fst (process_ingredients_pca lenient_pca 0 (session_with catalog_sin_cost))) 1 =
       empty_frame
   \<and> st_errors (fst (process_ingredients_pca lenient_pca 0 (session_with catalog_sin_cost))) =
       [''El DataFrame de ingredientes no tiene las columnas necesarias (logP, odor_value, cost).'']"
  by (simp add: process_ingredients_pca_def session_with_def catalog_sin_cost_def df_empty_def
      has_features_def features_cols_def new_DataFrame_def st_error_def columnas_necesarias_def)

text \<open>
  C7, as the code has it: for an empty table the function raises nothing and shows
  nothing; it returns a new empty frame and leaves every object in use as it was.
  No further signal goes to the caller, and the page reports this empty result with
  its \<^verbatim>\<open>st.error\<close> text for a failed load and draws no tabs.
\<close>

theorem empty_catalog_gives_empty_frame:
  assumes "df_empty (heap w df)"
  shows "snd (process_ingredients_pca lib df w) = Inr (next_ref w)
     \<and> heap (fst (process_ingredients_pca lib df w)) (next_ref w) = empty_frame
     \<and> st_errors (fst (process_ingredients_pca lib df w)) = st_errors w
     \<and> (\<forall>r. r < next_ref w \<longrightarrow> heap (fst (process_ingredients_pca lib df w)) r = heap w r)
     \<and> page lib df w =
         (st_error no_se_pudieron (fst (process_ingredients_pca lib df w)), Inr False)"
  using assms by (simp add: process_empty page_def df_empty_def empty_frame_def)

theorem empty_catalog_gives_empty_frame_witness:
  "df_empty empty_frame
   \<and> snd (process_ingredients_pca lenient_pca 0 (session_with empty_frame)) = Inr 1
   \<and> st_errors (fst (process_ingredients_pca lenient_pca 0 (session_with empty_frame))) = []
   \<and> (0::nat) < next_ref (session_with empty_frame)
   \<and> heap (fst (process_ingredients_pca lenient_pca 0 (session_with empty_frame))) 0 = empty_frame
   \<and> snd (page lenient_pca 0 (session_with empty_frame)) = Inr False"
proof -
  have a: "df_empty empty_frame"
    by (simp add: df_empty_def empty_frame_def)
  have heap0: "heap (session_with d) 0 = d" "next_ref (session_with d) = 1"
    "st_errors (session_with d) = []" for d
    by (simp_all add: session_with_def)
  show ?thesis
    using empty_catalog_gives_empty_frame [of "session_with empty_frame" 0 lenient_pca] a
    by (simp add: heap0)
qed

text \<open>
  C7 fails as stated: what the function returns for the empty table and what it
  returns for the table without the column \<^verbatim>\<open>cost\<close>, a failure, are the same, a
  reference to an empty frame, and the page answers both with the same text and
  draws no tabs.
\<close>

theorem empty_catalog_like_missing_column:
  "snd (process_ingredients_pca lenient_pca 0 (session_with empty_frame)) = Inr 1
   \<and> snd (process_ingredients_pca lenient_pca 0 (session_with catalog_sin_cost)) = Inr 1
   \<and> heap (fst (process_ingredients_pca lenient_pca 0 (session_with empty_frame))) 1 = empty_frame
   \<and> heap (fst (process_ingredients_pca lenient_pca 0 (session_with catalog_sin_cost))) 1 =
       empty_frame
   \<and> snd (page lenient_pca 0 (session_with empty_frame)) = Inr False
   \<and> snd (page lenient_pca 0 (session_with catalog_sin_cost)) = Inr False
   \<and> last (st_errors (fst (page lenient_pca 0 (session_with empty_frame)))) = no_se_pudieron
   \<and> last (st_errors (fst (page lenient_pca 0 (session_with catalog_sin_cost)))) = no_se_pudieron"
  by (simp add: page_def process_ingredients_pca_def session_with_def catalog_sin_cost_def
      df_empty_def has_features_def features_cols_def new_DataFrame_def st_error_def
      empty_frame_def)

lemma body_writes_into_argument:
  assumes "df < next_ref w"
  shows "(snd (process_ingredients_pca lib df w) = Inr df \<longleftrightarrow>
            \<not> df_empty (heap w df) \<and> has_features (heap w df)
            \<and> validate lib (features_values (heap w df)) = None
            \<and> 3 \<le> length (features_values (heap w df)))
     \<and> (snd (process_ingredients_pca lib df w) = Inr df \<longrightarrow>
            heap (fst (process_ingredients_pca lib df w)) df =
              add_dims (map (components lib (features_values (heap w df)))
                          [0..<length (features_values (heap w df))]) (heap w df)
            \<and> index_len (heap (fst (process_ingredients_pca lib df w)) df) = index_len (heap w df)
            \<and> (\<forall>label. label \<noteq> ''Dim 1 (Olfativo)'' \<and> label \<noteq> ''Dim 2 (Tonalidad)''
                   \<and> label \<noteq> ''Dim 3 (Impacto)'' \<longrightarrow>
                 map_of (columns (heap (fst (process_ingredients_pca lib df w)) df)) label =
                 map_of (columns (heap w df)) label))
     \<and> (snd (process_ingredients_pca lib df w) \<noteq> Inr df \<longrightarrow>
            heap (fst (process_ingredients_pca lib df w)) df = heap w df)
     \<and> (\<forall>r. r < next_ref w \<and> r \<noteq> df \<longrightarrow>
            heap (fst (process_ingredients_pca lib df w)) r = heap w r)"
proof (cases "df_empty (heap w df)")
  case True
  with assms show ?thesis
    by (simp add: process_empty)
next
  case not_empty: False
  show ?thesis
  proof (cases "has_features (heap w df)")
    case False
    with not_empty assms show ?thesis
      by (simp add: process_missing)
  next
    case features: True
    show ?thesis
    proof (cases "validate lib (features_values (heap w df))")
      case (Some e)
      with not_empty features show ?thesis
        by (simp add: process_fit fit_transform_refused)
    next
      case None
      show ?thesis
      proof (cases "3 \<le> length (features_values (heap w df))")
        case True
        with None not_empty features show ?thesis
          by (simp add: process_fit fit_transform_enough_rows index_len_add_dims map_of_add_dims)
      next
        case False
        then have "length (features_values (heap w df)) < 3"
          by simp
        with None not_empty features show ?thesis
          by (simp add: process_fit fit_transform_few_rows)
      qed
    qed
  qed
qed


text \<open>
  C5, as the code has it. When the cache holds no result for the content of the
  argument, the body runs and writes into the argument: the call returns the argument
  itself exactly when the table is not empty, has the three columns, is accepted by
  the library and has at least three rows, and the frame given then holds the three
  coordinate columns, set by the three assignments, with its number of rows and its
  other columns as before; in every other case of a run of the body the frame given
  is left as it was; the other objects in use are left as they were. When the cache
  holds a result, the body does not run: every object in use, the argument among
  them, is left as it was, the cache stays as it is, and the call returns a new
  object that holds the stored value.
\<close>

theorem cached_call_effect_on_argument:
  assumes "df < next_ref w"
  shows "(map_of cache (heap w df) = None \<longrightarrow>
       (snd (cached_process_ingredients_pca lib df (cache, w)) = Inr df \<longleftrightarrow>
            \<not> df_empty (heap w df) \<and> has_features (heap w df)
            \<and> validate lib (features_values (heap w df)) = None
            \<and> 3 \<le> length (features_values (heap w df)))
     \<and> (snd (cached_process_ingredients_pca lib df (cache, w)) = Inr df \<longrightarrow>
            heap (snd (fst (cached_process_ingredients_pca lib df (cache, w)))) df =
              add_dims (map (components lib (features_values (heap w df)))
                          [0..<length (features_values (heap w df))]) (heap w df)
            \<and> index_len (heap (snd (fst (cached_process_ingredients_pca lib df (cache, w)))) df) =
                index_len (heap w df)
            \<and> (\<forall>label. label \<noteq> ''Dim 1 (Olfativo)'' \<and> label \<noteq> ''Dim 2 (Tonalidad)''
                   \<and> label \<noteq> ''Dim 3 (Impacto)'' \<longrightarrow>
                 map_of (columns (heap (snd (fst (cached_process_ingredients_pca lib df (cache, w)))) df))
                   label =
                 map_of (columns (heap w df)) label))
     \<and> (snd (cached_process_ingredients_pca lib df (cache, w)) \<noteq> Inr df \<longrightarrow>
            heap (snd (fst (cached_process_ingredients_pca lib df (cache, w)))) df = heap w df)
     \<and> (\<forall>r. r < next_ref w \<and> r \<noteq> df \<longrightarrow>
            heap (snd (fst (cached_process_ingredients_pca lib df (cache, w)))) r = heap w r))
   \<and> (\<forall>hit. map_of cache (heap w df) = Some hit \<longrightarrow>
        snd (cached_process_ingredients_pca lib df (cache, w)) = Inr (next_ref w)
      \<and> Inr (next_ref w) \<noteq> (Inr df :: py_error + ref)
      \<and> heap (snd (fst (cached_process_ingredients_pca lib df (cache, w)))) (next_ref w) =
          cached_value hit
      \<and> (\<forall>r. r < next_ref w \<longrightarrow>
            heap (snd (fst (cached_process_ingredients_pca lib df (cache, w)))) r = heap w r)
      \<and> fst (fst (cached_process_ingredients_pca lib df (cache, w))) = cache)"
proof (intro conjI impI allI)
  fix hit
  assume hit: "map_of cache (heap w df) = Some hit"
  show "snd (cached_process_ingredients_pca lib df (cache, w)) = Inr (next_ref w)"
    by (simp add: cached_hit [OF hit])
  show "Inr (next_ref w) \<noteq> (Inr df :: py_error + ref)"
    using assms by simp
  show "heap (snd (fst (cached_process_ingredients_pca lib df (cache, w)))) (next_ref w) =
      cached_value hit"
    by (simp add: cached_hit [OF hit])
  show "fst (fst (cached_process_ingredients_pca lib df (cache, w))) = cache"
    by (simp add: cached_hit [OF hit])
  fix r
  assume "r < next_ref w"
  then show "heap (snd (fst (cached_process_ingredients_pca lib df (cache, w)))) r = heap w r"
    by (simp add: cached_hit [OF hit])
next
  assume miss: "map_of cache (heap w df) = None"
  note same = cached_miss [OF miss, of lib]
  note body = body_writes_into_argument [OF assms, of lib]
  show "snd (cached_process_ingredients_pca lib df (cache, w)) = Inr df \<longleftrightarrow>
            \<not> df_empty (heap w df) \<and> has_features (heap w df)
            \<and> validate lib (features_values (heap w df)) = None
            \<and> 3 \<le> length (features_values (heap w df))"
    using same body by simp
  show "snd (cached_process_ingredients_pca lib df (cache, w)) \<noteq> Inr df \<Longrightarrow>
      heap (snd (fst (cached_process_ingredients_pca lib df (cache, w)))) df = heap w df"
    using same body by simp
  show "\<And>r. r < next_ref w \<and> r \<noteq> df \<Longrightarrow>
      heap (snd (fst (cached_process_ingredients_pca lib df (cache, w)))) r = heap w r"
    using same body by simp
  assume returned: "snd (cached_process_ingredients_pca lib df (cache, w)) = Inr df"
  show "heap (snd (fst (cached_process_ingredients_pca lib df (cache, w)))) df =
      add_dims (map (components lib (features_values (heap w df)))
                  [0..<length (features_values (heap w df))]) (heap w df)"
    using same body returned by (simp add: index_len_add_dims map_of_add_dims)
  show "index_len (heap (snd (fst (cached_process_ingredients_pca lib df (cache, w)))) df) =
      index_len (heap w df)"
    using same body returned by (simp add: index_len_add_dims map_of_add_dims)
  show "\<And>label. label \<noteq> ''Dim 1 (Olfativo)'' \<and> label \<noteq> ''Dim 2 (Tonalidad)''
        \<and> label \<noteq> ''Dim 3 (Impacto)'' \<Longrightarrow>
      map_of (columns (heap (snd (fst (cached_process_ingredients_pca lib df (cache, w)))) df)) label =
      map_of (columns (heap w df)) label"
    using same body returned by (simp add: index_len_add_dims map_of_add_dims)
qed

theorem cached_call_effect_on_argument_witness:
  "(0::nat) < next_ref (session_with get_mock_ingredients)
   \<and> map_of ([] :: data_cache) (heap (session_with get_mock_ingredients) 0) = None
   \<and> snd (cached_process_ingredients_pca lenient_pca 0 ([], session_with get_mock_ingredients)) =
       Inr 0
   \<and> index_len (heap (snd (fst (cached_process_ingredients_pca lenient_pca 0
          ([], session_with get_mock_ingredients)))) 0) = 15
   \<and> map_of [(get_mock_ingredients,
          \<lparr>cached_value = add_dims (map (components lenient_pca
               (features_values get_mock_ingredients)) [0..<15]) get_mock_ingredients,
           cached_messages = []\<rparr>)] (heap (session_with get_mock_ingredients) 0) =
       Some \<lparr>cached_value = add_dims (map (components lenient_pca
               (features_values get_mock_ingredients)) [0..<15]) get_mock_ingredients,
             cached_messages = []\<rparr>
   \<and> snd (cached_process_ingredients_pca lenient_pca 0
        ([(get_mock_ingredients,
           \<lparr>cached_value = add_dims (map (components lenient_pca
                (features_values get_mock_ingredients)) [0..<15]) get_mock_ingredients,
            cached_messages = []\<rparr>)], session_with get_mock_ingredients)) = Inr 1
   \<and> heap (snd (fst (cached_process_ingredients_pca lenient_pca 0
        ([(get_mock_ingredients,
           \<lparr>cached_value = add_dims (map (components lenient_pca
                (features_values get_mock_ingredients)) [0..<15]) get_mock_ingredients,
            cached_messages = []\<rparr>)], session_with get_mock_ingredients)))) 0 =
       get_mock_ingredients"
proof -
  let ?w = "session_with get_mock_ingredients"
  let ?hit = "\<lparr>cached_value = add_dims (map (components lenient_pca
               (features_values get_mock_ingredients)) [0..<15]) get_mock_ingredients,
             cached_messages = []\<rparr>"
  have heap0: "heap ?w 0 = get_mock_ingredients" and next1: "next_ref ?w = 1"
    by (simp_all add: session_with_def)
  have pos: "(0::nat) < next_ref ?w"
    by (simp add: next1)
  have miss: "map_of ([] :: data_cache) (heap ?w 0) = None"
    by simp
  have hit: "map_of [(get_mock_ingredients, ?hit)] (heap ?w 0) = Some ?hit"
    by (simp add: heap0)
  have projectable: "\<not> df_empty (heap ?w 0) \<and> has_features (heap ?w 0)
      \<and> validate lenient_pca (features_values (heap ?w 0)) = None
      \<and> 3 \<le> length (features_values (heap ?w 0))"
    using wf_get_mock_ingredients
    by (simp add: heap0 df_empty_def has_features_not_no_columns length_features_values
        lenient_pca_def)
  note first = cached_call_effect_on_argument [OF pos, where cache = "[]" and lib = lenient_pca]
  note second = cached_call_effect_on_argument
    [OF pos, where cache = "[(get_mock_ingredients, ?hit)]" and lib = lenient_pca]
  from first miss projectable
  have returned: "snd (cached_process_ingredients_pca lenient_pca 0 ([], ?w)) = Inr 0"
    by blast
  with first miss
  have "index_len (heap (snd (fst (cached_process_ingredients_pca lenient_pca 0 ([], ?w)))) 0) =
      index_len (heap ?w 0)"
    by blast
  with wf_get_mock_ingredients
  have rows: "index_len (heap (snd (fst (cached_process_ingredients_pca lenient_pca 0
      ([], ?w)))) 0) = 15"
    by (simp add: heap0)
  from second hit
  have again: "snd (cached_process_ingredients_pca lenient_pca 0
        ([(get_mock_ingredients, ?hit)], ?w)) = Inr (next_ref ?w)"
    and kept: "\<forall>r. r < next_ref ?w \<longrightarrow>
        heap (snd (fst (cached_process_ingredients_pca lenient_pca 0
          ([(get_mock_ingredients, ?hit)], ?w)))) r = heap ?w r"
    by blast+
  from kept pos
  have same: "heap (snd (fst (cached_process_ingredients_pca lenient_pca 0
          ([(get_mock_ingredients, ?hit)], ?w)))) 0 = get_mock_ingredients"
    by (simp add: heap0)
  from pos miss returned rows hit again same show ?thesis
    by (simp add: next1)
qed

text \<open>
  C5 fails as stated: after the first call on the example table, with an empty cache,
  the object given is no longer the table it was. It had five columns and has eight,
  and the reference returned is the reference given.
\<close>

theorem mock_table_is_changed:
  "map fst (columns (heap (session_with get_mock_ingredients) 0)) =
     [''nombre'', ''Familia Olfativa'', ''logP'', ''odor_value'', ''cost'']
   \<and> map fst (columns (heap (snd (fst (cached_process_ingredients_pca lenient_pca 0
        ([], session_with get_mock_ingredients)))) 0)) =
     [''nombre'', ''Familia Olfativa'', ''logP'', ''odor_value'', ''cost'',
      ''Dim 1 (Olfativo)'', ''Dim 2 (Tonalidad)'', ''Dim 3 (Impacto)'']
   \<and> snd (cached_process_ingredients_pca lenient_pca 0
        ([], session_with get_mock_ingredients)) = Inr 0"
proof -
  have heap0: "heap (session_with d) 0 = d" for d
    by (simp add: session_with_def)
  have labels: "map fst (columns get_mock_ingredients) =
      [''nombre'', ''Familia Olfativa'', ''logP'', ''odor_value'', ''cost'']"
    by (simp add: get_mock_ingredients_def rename_def DataFrame_def mock_data_def)
  have run: "process_ingredients_pca lenient_pca 0 (session_with get_mock_ingredients) =
     (session_with get_mock_ingredients\<lparr>heap := (heap (session_with get_mock_ingredients))(0 :=
          add_dims (map (components lenient_pca (features_values get_mock_ingredients)) [0..<15])
            get_mock_ingredients)\<rparr>,
      Inr 0)"
    using process_enough_rows [of "session_with get_mock_ingredients" 0 lenient_pca]
      wf_get_mock_ingredients
    by (simp add: heap0 lenient_pca_def)
  have assigned: "map fst (assign l vs cols) = (if l \<in> set (map fst cols) then map fst cols
      else map fst cols @ [l])" for l vs and cols :: "(string \<times> cell list) list"
    by (induction cols) (force simp: image_iff)+
  have call: "snd (cached_process_ingredients_pca lenient_pca 0
        ([], session_with get_mock_ingredients)) =
      snd (process_ingredients_pca lenient_pca 0 (session_with get_mock_ingredients))
    \<and> snd (fst (cached_process_ingredients_pca lenient_pca 0
        ([], session_with get_mock_ingredients))) =
      fst (process_ingredients_pca lenient_pca 0 (session_with get_mock_ingredients))"
    by (rule cached_miss) simp
  show ?thesis
    by (simp add: call run heap0 labels add_dims_def set_column_def assigned)
qed

end
